theory Spec2Isabelle
  imports Main "HOL-Library.Char_ord" "HOL-Library.List_Lexorder" "HOL-Library.Multiset"
begin

section \<open>Values crossing the HTTP boundary\<close>

text \<open>
  The two programs, \<^verbatim>\<open>index.js\<close> (called the root implementation) and
  \<^verbatim>\<open>server/index.js\<close> (the server implementation), are Express applications
  over one SQLite table \<^verbatim>\<open>tickets\<close>. Each route handler reads fields of the parsed
  JSON body, runs at most one SQL statement and sends one response.

  The request body is a JSON object, possibly empty, read as a map from field
  names. A field is modelled as absent (\<open>None\<close>, JavaScript's
  \<^verbatim>\<open>undefined\<close> after destructuring), \<^verbatim>\<open>null\<close> or a string. Fields holding numbers,
  booleans, arrays or objects are outside this model. Strings are sequences of
  bytes (UTF-8), as SQLite stores and compares them.
\<close>

datatype field = Null | Text string

type_synonym body = "string \<rightharpoonup> field"

text \<open>JavaScript truthiness, the test behind \<^verbatim>\<open>!buyer_name\<close> and \<^verbatim>\<open>!ticket_id\<close>.\<close>

fun truthy :: "field option \<Rightarrow> bool" where
  "truthy None = False"
| "truthy (Some Null) = False"
| "truthy (Some (Text s)) = (s \<noteq> [])"

text \<open>
  The value bound to a \<^verbatim>\<open>?\<close> of a statement: \<^verbatim>\<open>undefined\<close> and \<^verbatim>\<open>null\<close> bind
  SQL NULL (\<open>None\<close>), a string binds as TEXT.
\<close>

fun sql_param :: "field option \<Rightarrow> string option" where
  "sql_param None = None"
| "sql_param (Some Null) = None"
| "sql_param (Some (Text s)) = Some s"

datatype json =
    JNull
  | JBool bool
  | JStr string
  | JArr "json list"
  | JObj "(string \<times> json) list"

text \<open>\<^verbatim>\<open>JSON.stringify\<close> leaves a property out when its value is \<^verbatim>\<open>undefined\<close>.\<close>

fun json_of_field :: "field option \<Rightarrow> json option" where
  "json_of_field None = None"
| "json_of_field (Some Null) = Some JNull"
| "json_of_field (Some (Text s)) = Some (JStr s)"

fun stringify :: "(string \<times> json option) list \<Rightarrow> json" where
  "stringify ps = JObj (List.map_filter (\<lambda>(k, v). map_option (Pair k) v) ps)"

fun property :: "json \<Rightarrow> string \<Rightarrow> json option" where
  "property (JObj ps) k = map_of ps k"
| "property _ k = None"

datatype response = Response (code: nat) (payload: json)

section \<open>The tickets table\<close>

text \<open>
  \<^verbatim>\<open>
  CREATE TABLE IF NOT EXISTS tickets (
    id TEXT PRIMARY KEY,
    buyer_name TEXT NOT NULL,
    buyer_email TEXT,
    event_name TEXT NOT NULL,
    created_at DATETIME DEFAULT CURRENT_TIMESTAMP,
    status TEXT DEFAULT 'V\'alido',
    qr_code TEXT            -- server/index.js: qr_code TEXT UNIQUE
  )\<close>
  A table is the list of its rows in insertion (rowid) order. The only INSERT of
  the programs gives \<^verbatim>\<open>id\<close> and \<^verbatim>\<open>qr_code\<close> a string and leaves \<^verbatim>\<open>created_at\<close>
  and \<^verbatim>\<open>status\<close> to their defaults, so these four columns are never NULL; only
  \<^verbatim>\<open>buyer_email\<close> is optional in a row.
\<close>

record ticket =
  row_id :: string
  buyer_name :: string
  buyer_email :: "string option"
  event_name :: string
  created_at :: string
  status :: string
  qr_code :: string

text \<open>The two status texts; the accented letter is the two bytes C3 A1 of UTF-8.\<close>

definition a_acute :: string where
  "a_acute = [CHR 0xC3, CHR 0xA1]"

definition Valido :: string where
  "Valido = ''V'' @ a_acute @ ''lido''"

definition Canjeado :: string where
  "Canjeado = ''Canjeado''"

definition json_of_row :: "ticket \<Rightarrow> json" where
  "json_of_row r = JObj
     [(''id'', JStr (row_id r)),
      (''buyer_name'', JStr (buyer_name r)),
      (''buyer_email'', (case buyer_email r of None \<Rightarrow> JNull | Some m \<Rightarrow> JStr m)),
      (''event_name'', JStr (event_name r)),
      (''created_at'', JStr (created_at r)),
      (''status'', JStr (status r)),
      (''qr_code'', JStr (qr_code r))]"

section \<open>The SQL statements of the programs\<close>

text \<open>
  One constructor for each SQL text in the sources; the arguments are the bound
  parameters, in the order of the \<^verbatim>\<open>?\<close> marks.
  \<^item> \<open>Select_all\<close>: \<^verbatim>\<open>SELECT * FROM tickets ORDER BY created_at DESC\<close>
  \<^item> \<open>Select_by_id\<close>: \<^verbatim>\<open>SELECT * FROM tickets WHERE id = ?\<close>
  \<^item> \<open>Insert_ticket\<close>: \<^verbatim>\<open>INSERT INTO tickets (id, buyer_name, buyer_email, event_name, qr_code) VALUES (?, ?, ?, ?, ?)\<close>
  \<^item> \<open>Update_valid_to_redeemed\<close> (root): \<^verbatim>\<open>UPDATE tickets SET status = "Canjeado" WHERE id = ? AND status = "V\'alido"\<close>
  \<^item> \<open>Update_status\<close> (server): \<^verbatim>\<open>UPDATE tickets SET status = ? WHERE id = ?\<close>
  \<^item> \<open>Delete_by_id\<close>: \<^verbatim>\<open>DELETE FROM tickets WHERE id = ?\<close>

  The double-quoted words of the root's UPDATE name no column, so SQLite reads
  them as the string literals they are meant to be.
\<close>

datatype query =
    Select_all
  | Select_by_id "string option"

datatype command =
    Insert_ticket string "string option" "string option" "string option" string
  | Update_valid_to_redeemed "string option"
  | Update_status string "string option"
  | Delete_by_id "string option"

text \<open>\<^verbatim>\<open>id = ?\<close> is never true for a NULL parameter.\<close>

definition id_is :: "string option \<Rightarrow> ticket \<Rightarrow> bool" where
  "id_is p r = (p = Some (row_id r))"

text \<open>
  \<^verbatim>\<open>ORDER BY created_at DESC\<close> compares the texts bytewise. Rows with equal
  \<^verbatim>\<open>created_at\<close> are kept in table order here; SQL leaves their order open.
\<close>

definition order_by_created_at_desc :: "ticket list \<Rightarrow> ticket list" where
  "order_by_created_at_desc t = rev (sort_key created_at (rev t))"

fun select :: "query \<Rightarrow> ticket list \<Rightarrow> ticket list" where
  "select Select_all t = order_by_created_at_desc t"
| "select (Select_by_id p) t = filter (id_is p) t"

text \<open>
  Running a command gives the number of changed rows (\<^verbatim>\<open>this.changes\<close>) and the
  new table, or \<open>None\<close> when a constraint rejects it: the primary key, the two
  NOT NULL columns and, where the schema has it (\<open>uq\<close>), UNIQUE on \<^verbatim>\<open>qr_code\<close>.
  \<open>now\<close> is the value of \<^verbatim>\<open>CURRENT_TIMESTAMP\<close>. An UPDATE counts every row its
  WHERE clause selects, also one that already holds the new value.
\<close>

fun execute :: "bool \<Rightarrow> string \<Rightarrow> command \<Rightarrow> ticket list \<Rightarrow> (nat \<times> ticket list) option" where
  "execute uq now (Insert_ticket i bn be en qr) t =
     (case (bn, en) of
        (Some n, Some ev) \<Rightarrow>
          if i \<in> set (map row_id t) \<or> (uq \<and> qr \<in> set (map qr_code t)) then None
          else Some (1, t @ [\<lparr>row_id = i, buyer_name = n, buyer_email = be, event_name = ev,
                               created_at = now, status = Valido, qr_code = qr\<rparr>])
      | _ \<Rightarrow> None)"
| "execute uq now (Update_valid_to_redeemed p) t =
     Some (length (filter (\<lambda>r. id_is p r \<and> status r = Valido) t),
           map (\<lambda>r. if id_is p r \<and> status r = Valido then r\<lparr>status := Canjeado\<rparr> else r) t)"
| "execute uq now (Update_status v p) t =
     Some (length (filter (id_is p) t),
           map (\<lambda>r. if id_is p r then r\<lparr>status := v\<rparr> else r) t)"
| "execute uq now (Delete_by_id p) t =
     Some (length (filter (id_is p) t), filter (\<lambda>r. \<not> id_is p r) t)"

section \<open>The collaborators of one request\<close>

text \<open>
  What a handler reads from outside during one request:
  \<^item> \<open>uuidv4\<close>: the identifier \<^verbatim>\<open>uuidv4()\<close> returns;
  \<^item> \<open>toDataURL\<close>: \<^verbatim>\<open>qrcode.toDataURL\<close>, \<open>None\<close> when its promise is rejected;
  \<^item> \<open>moment_format\<close>: \<^verbatim>\<open>moment().format(pattern)\<close> at the time of the response,
    the argument \<open>None\<close> for the call without a pattern;
  \<^item> \<open>current_timestamp\<close>: SQLite's \<^verbatim>\<open>CURRENT_TIMESTAMP\<close> when the row is inserted;
  \<^item> \<open>db_error\<close>: the engine reports an error for the statement (the \<^verbatim>\<open>err\<close>
    argument of the callback) for a reason outside the table, such as a failed
    read or write of the database file. The table is then unchanged.
\<close>

record env =
  uuidv4 :: string
  toDataURL :: "string \<Rightarrow> string option"
  moment_format :: "string option \<Rightarrow> string"
  current_timestamp :: string
  db_error :: bool

text \<open>The three calls of the sqlite3 binding; \<open>None\<close> is a callback with \<^verbatim>\<open>err\<close> set.\<close>

definition db_all :: "env \<Rightarrow> query \<Rightarrow> ticket list \<Rightarrow> ticket list option" where
  "db_all e q t = (if db_error e then None else Some (select q t))"

definition db_get :: "env \<Rightarrow> query \<Rightarrow> ticket list \<Rightarrow> ticket option option" where
  "db_get e q t =
     (if db_error e then None
      else Some (case select q t of [] \<Rightarrow> None | r # _ \<Rightarrow> Some r))"

definition db_run :: "bool \<Rightarrow> env \<Rightarrow> command \<Rightarrow> ticket list \<Rightarrow> nat option \<times> ticket list" where
  "db_run uq e c t =
     (if db_error e then (None, t)
      else case execute uq (current_timestamp e) c t of
             None \<Rightarrow> (None, t)
           | Some (n, t') \<Rightarrow> (Some n, t'))"

text \<open>
  A handler's outcome: the response sent, the table afterwards, and the calls it
  made to the QR encoder and to the store, in order.
\<close>

datatype call =
    ToDataURL string
  | Db_all query
  | Db_get query
  | Db_run command

record outcome =
  response :: response
  table :: "ticket list"
  calls :: "call list"

definition error_json :: "string \<Rightarrow> json" where
  "error_json m = JObj [(''error'', JStr m)]"

text \<open>The bytes of the two non-ASCII symbols in the server's success message.\<close>

definition party_popper :: string where
  "party_popper = [CHR 0xF0, CHR 0x9F, CHR 0x8E, CHR 0x89]"

definition inverted_exclamation :: string where
  "inverted_exclamation = [CHR 0xC2, CHR 0xA1]"

section \<open>The handlers of index.js\<close>

text \<open>\<^verbatim>\<open>app.post('/api/tickets', ...)\<close>\<close>

definition post_tickets_root :: "env \<Rightarrow> body \<Rightarrow> ticket list \<Rightarrow> outcome" where
  "post_tickets_root e b t =
     (if \<not> truthy (b ''buyer_name'') \<or> \<not> truthy (b ''event_name'') then
        \<lparr>response = Response 400 (error_json ''Nombre del comprador y evento son requeridos''),
         table = t, calls = []\<rparr>
      else
        (case toDataURL e (uuidv4 e) of
           None \<Rightarrow>
             \<lparr>response = Response 500 (error_json ''Error interno del servidor''),
              table = t, calls = [ToDataURL (uuidv4 e)]\<rparr>
         | Some qr \<Rightarrow>
             (let c = Insert_ticket (uuidv4 e) (sql_param (b ''buyer_name''))
                        (sql_param (b ''buyer_email'')) (sql_param (b ''event_name'')) qr
              in case db_run False e c t of
                   (None, t') \<Rightarrow>
                     \<lparr>response = Response 500 (error_json ''Error creando el ticket''),
                      table = t', calls = [ToDataURL (uuidv4 e), Db_run c]\<rparr>
                 | (Some n, t') \<Rightarrow>
                     \<lparr>response = Response 200 (stringify
                        [(''id'', Some (JStr (uuidv4 e))),
                         (''buyer_name'', json_of_field (b ''buyer_name'')),
                         (''buyer_email'', json_of_field (b ''buyer_email'')),
                         (''event_name'', json_of_field (b ''event_name'')),
                         (''status'', Some (JStr Valido)),
                         (''created_at'', Some (JStr (moment_format e None))),
                         (''qr_code'', Some (JStr qr))]),
                      table = t', calls = [ToDataURL (uuidv4 e), Db_run c]\<rparr>)))"

text \<open>\<^verbatim>\<open>app.get('/api/tickets', ...)\<close>\<close>

definition get_tickets_root :: "env \<Rightarrow> ticket list \<Rightarrow> outcome" where
  "get_tickets_root e t =
     \<lparr>response =
        (case db_all e Select_all t of
           None \<Rightarrow> Response 500 (error_json ''Error obteniendo tickets'')
         | Some rows \<Rightarrow> Response 200 (JArr (map json_of_row rows))),
      table = t, calls = [Db_all Select_all]\<rparr>"

text \<open>\<^verbatim>\<open>app.get('/api/tickets/:id', ...)\<close>\<close>

definition get_ticket_root :: "env \<Rightarrow> string \<Rightarrow> ticket list \<Rightarrow> outcome" where
  "get_ticket_root e i t =
     \<lparr>response =
        (case db_get e (Select_by_id (Some i)) t of
           None \<Rightarrow> Response 500 (error_json ''Error obteniendo ticket'')
         | Some None \<Rightarrow> Response 404 (error_json ''Ticket no encontrado'')
         | Some (Some row) \<Rightarrow> Response 200 (json_of_row row)),
      table = t, calls = [Db_get (Select_by_id (Some i))]\<rparr>"

text \<open>\<^verbatim>\<open>app.post('/api/tickets/validate', ...)\<close>\<close>

definition post_validate_root :: "env \<Rightarrow> body \<Rightarrow> ticket list \<Rightarrow> outcome" where
  "post_validate_root e b t =
     (if \<not> truthy (b ''ticket_id'') then
        \<lparr>response = Response 400 (error_json ''ID del ticket es requerido''),
         table = t, calls = []\<rparr>
      else
        (let q = Select_by_id (sql_param (b ''ticket_id''))
         in \<lparr>response =
               (case db_get e q t of
                  None \<Rightarrow> Response 500 (error_json ''Error validando ticket'')
                | Some None \<Rightarrow>
                    Response 200 (JObj [(''valid'', JBool False),
                                        (''message'', JStr ''Ticket no encontrado'')])
                | Some (Some row) \<Rightarrow>
                    if status row = Canjeado then
                      Response 200 (JObj [(''valid'', JBool False),
                                          (''message'', JStr ''Ticket ya fue canjeado''),
                                          (''ticket'', json_of_row row)])
                    else
                      Response 200 (JObj [(''valid'', JBool True),
                                          (''message'', JStr (''Ticket v'' @ a_acute @ ''lido'')),
                                          (''ticket'', json_of_row row)])),
              table = t, calls = [Db_get q]\<rparr>))"

text \<open>\<^verbatim>\<open>app.post('/api/tickets/redeem', ...)\<close>\<close>

definition post_redeem_root :: "env \<Rightarrow> body \<Rightarrow> ticket list \<Rightarrow> outcome" where
  "post_redeem_root e b t =
     (if \<not> truthy (b ''ticket_id'') then
        \<lparr>response = Response 400 (error_json ''ID del ticket es requerido''),
         table = t, calls = []\<rparr>
      else
        (let c = Update_valid_to_redeemed (sql_param (b ''ticket_id''))
         in case db_run False e c t of
              (None, t') \<Rightarrow>
                \<lparr>response = Response 500 (error_json ''Error canjeando ticket''),
                 table = t', calls = [Db_run c]\<rparr>
            | (Some n, t') \<Rightarrow>
                \<lparr>response =
                   (if n = 0 then
                      Response 400 (error_json ''Ticket no encontrado o ya fue canjeado'')
                    else
                      Response 200 (JObj [(''message'', JStr ''Ticket canjeado exitosamente'')])),
                 table = t', calls = [Db_run c]\<rparr>))"

text \<open>\<^verbatim>\<open>app.delete('/api/tickets/:id', ...)\<close>\<close>

definition delete_ticket_root :: "env \<Rightarrow> string \<Rightarrow> ticket list \<Rightarrow> outcome" where
  "delete_ticket_root e i t =
     (case db_run False e (Delete_by_id (Some i)) t of
        (None, t') \<Rightarrow>
          \<lparr>response = Response 500 (error_json ''Error eliminando ticket''),
           table = t', calls = [Db_run (Delete_by_id (Some i))]\<rparr>
      | (Some n, t') \<Rightarrow>
          \<lparr>response =
             (if n = 0 then Response 404 (error_json ''Ticket no encontrado'')
              else Response 200 (JObj [(''message'', JStr ''Ticket eliminado exitosamente'')])),
           table = t', calls = [Db_run (Delete_by_id (Some i))]\<rparr>)"

section \<open>The handlers of server/index.js\<close>

text \<open>
  The table of this program declares \<^verbatim>\<open>qr_code TEXT UNIQUE\<close>, so its commands
  run with the UNIQUE check on.
\<close>

definition post_tickets_server :: "env \<Rightarrow> body \<Rightarrow> ticket list \<Rightarrow> outcome" where
  "post_tickets_server e b t =
     (if \<not> truthy (b ''buyer_name'') \<or> \<not> truthy (b ''event_name'') then
        \<lparr>response = Response 400
           (error_json ''Nombre del comprador y nombre del evento son requeridos''),
         table = t, calls = []\<rparr>
      else
        (case toDataURL e (uuidv4 e) of
           None \<Rightarrow>
             \<lparr>response = Response 500 (error_json ''Error interno del servidor''),
              table = t, calls = [ToDataURL (uuidv4 e)]\<rparr>
         | Some qrCode \<Rightarrow>
             (let c = Insert_ticket (uuidv4 e) (sql_param (b ''buyer_name''))
                        (sql_param (b ''buyer_email'')) (sql_param (b ''event_name'')) qrCode
              in case db_run True e c t of
                   (None, t') \<Rightarrow>
                     \<lparr>response = Response 500 (error_json ''Error al crear el ticket''),
                      table = t', calls = [ToDataURL (uuidv4 e), Db_run c]\<rparr>
                 | (Some n, t') \<Rightarrow>
                     \<lparr>response = Response 200 (stringify
                        [(''id'', Some (JStr (uuidv4 e))),
                         (''buyer_name'', json_of_field (b ''buyer_name'')),
                         (''buyer_email'', json_of_field (b ''buyer_email'')),
                         (''event_name'', json_of_field (b ''event_name'')),
                         (''created_at'',
                            Some (JStr (moment_format e (Some ''YYYY-MM-DD HH:mm:ss'')))),
                         (''status'', Some (JStr Valido)),
                         (''qr_code'', Some (JStr qrCode))]),
                      table = t', calls = [ToDataURL (uuidv4 e), Db_run c]\<rparr>)))"

definition get_tickets_server :: "env \<Rightarrow> ticket list \<Rightarrow> outcome" where
  "get_tickets_server e t =
     \<lparr>response =
        (case db_all e Select_all t of
           None \<Rightarrow> Response 500 (error_json ''Error al obtener tickets'')
         | Some rows \<Rightarrow> Response 200 (JArr (map json_of_row rows))),
      table = t, calls = [Db_all Select_all]\<rparr>"

definition get_ticket_server :: "env \<Rightarrow> string \<Rightarrow> ticket list \<Rightarrow> outcome" where
  "get_ticket_server e i t =
     \<lparr>response =
        (case db_get e (Select_by_id (Some i)) t of
           None \<Rightarrow> Response 500 (error_json ''Error al obtener ticket'')
         | Some None \<Rightarrow> Response 404 (error_json ''Ticket no encontrado'')
         | Some (Some row) \<Rightarrow> Response 200 (json_of_row row)),
      table = t, calls = [Db_get (Select_by_id (Some i))]\<rparr>"

definition post_validate_server :: "env \<Rightarrow> body \<Rightarrow> ticket list \<Rightarrow> outcome" where
  "post_validate_server e b t =
     (if \<not> truthy (b ''ticket_id'') then
        \<lparr>response = Response 400 (error_json ''ID del ticket es requerido''),
         table = t, calls = []\<rparr>
      else
        (let q = Select_by_id (sql_param (b ''ticket_id''))
         in \<lparr>response =
               (case db_get e q t of
                  None \<Rightarrow> Response 500 (error_json ''Error al validar ticket'')
                | Some None \<Rightarrow>
                    Response 200 (JObj [(''valid'', JBool False),
                                        (''message'', JStr ''Ticket no encontrado'')])
                | Some (Some row) \<Rightarrow>
                    if status row = Canjeado then
                      Response 200 (JObj [(''valid'', JBool False),
                                          (''already_redeemed'', JBool True),
                                          (''message'', JStr ''Ticket ya fue canjeado'')])
                    else
                      Response 200 (JObj [(''valid'', JBool True),
                                          (''ticket'', json_of_row row),
                                          (''message'', JStr (''Ticket v'' @ a_acute @ ''lido''))])),
              table = t, calls = [Db_get q]\<rparr>))"

definition post_redeem_server :: "env \<Rightarrow> body \<Rightarrow> ticket list \<Rightarrow> outcome" where
  "post_redeem_server e b t =
     (if \<not> truthy (b ''ticket_id'') then
        \<lparr>response = Response 400 (error_json ''ID del ticket es requerido''),
         table = t, calls = []\<rparr>
      else
        (let c = Update_status Canjeado (sql_param (b ''ticket_id''))
         in case db_run True e c t of
              (None, t') \<Rightarrow>
                \<lparr>response = Response 500 (error_json ''Error al canjear ticket''),
                 table = t', calls = [Db_run c]\<rparr>
            | (Some n, t') \<Rightarrow>
                \<lparr>response =
                   (if n = 0 then Response 404 (error_json ''Ticket no encontrado'')
                    else
                      Response 200 (JObj [(''success'', JBool True),
                        (''message'', JStr (party_popper @ '' '' @ inverted_exclamation
                           @ ''Ticket canjeado exitosamente! '' @ inverted_exclamation
                           @ ''Que disfrute el evento!''))])),
                 table = t', calls = [Db_run c]\<rparr>))"

definition delete_ticket_server :: "env \<Rightarrow> string \<Rightarrow> ticket list \<Rightarrow> outcome" where
  "delete_ticket_server e i t =
     (case db_run True e (Delete_by_id (Some i)) t of
        (None, t') \<Rightarrow>
          \<lparr>response = Response 500 (error_json ''Error al eliminar ticket''),
           table = t', calls = [Db_run (Delete_by_id (Some i))]\<rparr>
      | (Some n, t') \<Rightarrow>
          \<lparr>response =
             (if n = 0 then Response 404 (error_json ''Ticket no encontrado'')
              else Response 200 (JObj [(''success'', JBool True),
                                       (''message'', JStr ''Ticket eliminado exitosamente'')])),
           table = t', calls = [Db_run (Delete_by_id (Some i))]\<rparr>)"

section \<open>Requests and runs\<close>

datatype impl = Root | Server

datatype request =
    Create body
  | List_all
  | Get_by_id string
  | Validate body
  | Redeem body
  | Delete string

fun handle :: "impl \<Rightarrow> env \<Rightarrow> request \<Rightarrow> ticket list \<Rightarrow> outcome" where
  "handle Root e (Create b) t = post_tickets_root e b t"
| "handle Root e List_all t = get_tickets_root e t"
| "handle Root e (Get_by_id i) t = get_ticket_root e i t"
| "handle Root e (Validate b) t = post_validate_root e b t"
| "handle Root e (Redeem b) t = post_redeem_root e b t"
| "handle Root e (Delete i) t = delete_ticket_root e i t"
| "handle Server e (Create b) t = post_tickets_server e b t"
| "handle Server e List_all t = get_tickets_server e t"
| "handle Server e (Get_by_id i) t = get_ticket_server e i t"
| "handle Server e (Validate b) t = post_validate_server e b t"
| "handle Server e (Redeem b) t = post_redeem_server e b t"
| "handle Server e (Delete i) t = delete_ticket_server e i t"

text \<open>
  The tables a program can reach from the empty table, by any requests under any
  behaviour of its collaborators.
\<close>

inductive reachable :: "impl \<Rightarrow> ticket list \<Rightarrow> bool" for p :: impl where
  empty: "reachable p []"
| request: "reachable p t \<Longrightarrow> reachable p (table (handle p e rq t))"

text \<open>Requests served one after the other, each with its own collaborators.\<close>

fun run :: "impl \<Rightarrow> (env \<times> request) list \<Rightarrow> ticket list \<Rightarrow> ticket list" where
  "run p [] t = t"
| "run p ((e, rq) # rest) t = run p rest (table (handle p e rq t))"

text \<open>
  The table invariant of both programs: no two rows share an id, and every
  status is one of the two texts.
\<close>

definition well_formed :: "ticket list \<Rightarrow> bool" where
  "well_formed t =
     (distinct (map row_id t) \<and> (\<forall>r\<in>set t. status r = Valido \<or> status r = Canjeado))"

text \<open>
  A request touches the ticket \<open>i\<close> when it is a Redeem or a Delete of that id.
\<close>

fun touches :: "string \<Rightarrow> request \<Rightarrow> bool" where
  "touches i (Redeem b) = (sql_param (b ''ticket_id'') = Some i)"
| "touches i (Delete j) = (j = i)"
| "touches i _ = False"


section \<open>Sample values\<close>

text \<open>Concrete collaborators and rows, used to run the handlers on explicit inputs.\<close>

definition sample_env :: env where
  "sample_env =
     \<lparr>uuidv4 = ''t1'',
      toDataURL = (\<lambda>i. Some (''data:image/png;base64,'' @ i)),
      moment_format = (\<lambda>p. case p of None \<Rightarrow> ''2024-01-15T10:30:00-03:00''
                                 | Some _ \<Rightarrow> ''2024-01-15 10:30:00''),
      current_timestamp = ''2024-01-15 13:30:00'',
      db_error = False\<rparr>"

definition sample_ticket :: "string \<Rightarrow> string \<Rightarrow> string \<Rightarrow> ticket" where
  "sample_ticket i ts st =
     \<lparr>row_id = i, buyer_name = ''Ana'', buyer_email = None, event_name = ''Concert'',
      created_at = ts, status = st, qr_code = ''data:image/png;base64,'' @ i\<rparr>"

definition sample_id_body :: body where
  "sample_id_body = [''ticket_id'' \<mapsto> Text ''t1'']"

definition sample_create_body :: body where
  "sample_create_body = [''buyer_name'' \<mapsto> Text ''Ana'', ''event_name'' \<mapsto> Text ''Concert'']"

section \<open>Auxiliary facts\<close>

lemmas handler_defs =
  post_tickets_root_def get_tickets_root_def get_ticket_root_def post_validate_root_def
  post_redeem_root_def delete_ticket_root_def
  post_tickets_server_def get_tickets_server_def get_ticket_server_def post_validate_server_def
  post_redeem_server_def delete_ticket_server_def

lemma Valido_neq_Canjeado [simp]: "Valido \<noteq> Canjeado" "Canjeado \<noteq> Valido"
  by (simp_all add: Valido_def Canjeado_def a_acute_def)

lemma id_is_Some [simp]: "id_is (Some i) = (\<lambda>r. row_id r = i)"
  by (auto simp add: id_is_def fun_eq_iff)

lemma id_is_None [simp]: "id_is None = (\<lambda>r. False)"
  by (simp add: id_is_def fun_eq_iff)

lemma no_row_with_id: "(filter (\<lambda>r. row_id r = i) t = []) = (i \<notin> row_id ` set t)"
  by (auto simp add: filter_empty_conv)

lemma first_of_filter: "(case filter P xs of [] \<Rightarrow> None | x # _ \<Rightarrow> Some x) = find P xs"
  by (induction xs) auto

lemma db_get_by_id:
  "db_get e (Select_by_id p) t = (if db_error e then None else Some (find (id_is p) t))"
  by (simp add: db_get_def first_of_filter)

lemma order_by_created_at_desc_mset: "mset (order_by_created_at_desc t) = mset t"
  by (simp add: order_by_created_at_desc_def)

lemma order_by_created_at_desc_sorted:
  "sorted_wrt (\<lambda>a b. created_at b \<le> created_at a) (order_by_created_at_desc t)"
proof -
  have "sorted (map created_at (sort_key created_at (rev t)))"
    by (rule sorted_sort_key)
  then have "sorted_wrt (\<lambda>a b. created_at a \<le> created_at b) (sort_key created_at (rev t))"
    by (simp add: sorted_wrt_map)
  then show ?thesis
    by (simp add: order_by_created_at_desc_def sorted_wrt_rev)
qed

subsection \<open>What each handler does to the table\<close>

lemma table_create:
  "table (handle p e (Create b) t) = t
   \<or> (\<exists>r. table (handle p e (Create b) t) = t @ [r] \<and> row_id r = uuidv4 e
          \<and> uuidv4 e \<notin> row_id ` set t \<and> status r = Valido)"
  by (cases p)
     (auto simp add: handler_defs db_run_def Let_def split: option.splits prod.splits if_splits)

lemma table_reads [simp]:
  "table (handle p e List_all t) = t"
  "table (handle p e (Get_by_id i) t) = t"
  "table (handle p e (Validate b) t) = t"
  by (cases p; simp add: handler_defs Let_def)+

lemma table_redeem_root:
  "table (handle Root e (Redeem b) t) = t
   \<or> (\<exists>i. sql_param (b ''ticket_id'') = Some i
          \<and> table (handle Root e (Redeem b) t) =
              map (\<lambda>r. if row_id r = i \<and> status r = Valido then r\<lparr>status := Canjeado\<rparr> else r) t)"
  by (cases "b ''ticket_id''" rule: sql_param.cases)
     (auto simp add: handler_defs db_run_def Let_def)

lemma table_redeem_server:
  "table (handle Server e (Redeem b) t) = t
   \<or> (\<exists>i. sql_param (b ''ticket_id'') = Some i
          \<and> table (handle Server e (Redeem b) t) =
              map (\<lambda>r. if row_id r = i then r\<lparr>status := Canjeado\<rparr> else r) t)"
  by (cases "b ''ticket_id''" rule: sql_param.cases)
     (auto simp add: handler_defs db_run_def Let_def)

lemma table_delete:
  "table (handle p e (Delete i) t) = t
   \<or> table (handle p e (Delete i) t) = filter (\<lambda>r. row_id r \<noteq> i) t"
  by (cases p) (auto simp add: handler_defs db_run_def)

lemma well_formed_handle: "well_formed t \<Longrightarrow> well_formed (table (handle p e rq t))"
proof (cases rq)
  case (Create b)
  assume "well_formed t"
  with table_create [of p e b t] show ?thesis
    unfolding Create by (auto simp add: well_formed_def)
next
  case (Redeem b)
  assume wf: "well_formed t"
  have ids: "row_id \<circ> (\<lambda>r. if P r then r\<lparr>status := Canjeado\<rparr> else r) = row_id"
    for P :: "ticket \<Rightarrow> bool" by (auto simp add: fun_eq_iff)
  show ?thesis
  proof (cases p)
    case Root
    with wf table_redeem_root [of e b t] show ?thesis
      unfolding Redeem by (auto simp add: well_formed_def ids)
  next
    case Server
    with wf table_redeem_server [of e b t] show ?thesis
      unfolding Redeem by (auto simp add: well_formed_def ids)
  qed
next
  case (Delete i)
  assume "well_formed t"
  with table_delete [of p e i t] show ?thesis
    unfolding Delete by (auto simp add: well_formed_def distinct_map_filter)
qed simp_all

lemma well_formed_empty: "well_formed []"
  by (simp add: well_formed_def)

lemma reachable_well_formed: "reachable p t \<Longrightarrow> well_formed t"
  by (induction rule: reachable.induct) (simp_all add: well_formed_empty well_formed_handle)

lemma same_id_same_row:
  "well_formed t \<Longrightarrow> r \<in> set t \<Longrightarrow> x \<in> set t \<Longrightarrow> row_id x = row_id r \<Longrightarrow> x = r"
  by (auto simp add: well_formed_def distinct_map dest: inj_onD)

lemma only_row_with_id:
  assumes "well_formed t" and "r \<in> set t"
  shows "filter (\<lambda>x. row_id x = row_id r) t = [r]"
proof -
  from assms(1) have "distinct (map row_id t)" by (simp add: well_formed_def)
  with assms(2) show ?thesis
    by (induction t) (auto simp add: filter_empty_conv image_iff)
qed

subsection \<open>Redeem, case by case\<close>

lemma redeem_root_code:
  "code (response (handle Root e (Redeem b) t)) =
     (if \<not> truthy (b ''ticket_id'') then 400
      else if db_error e then 500
      else if \<exists>r\<in>set t. id_is (sql_param (b ''ticket_id'')) r \<and> status r = Valido then 200
      else 400)"
  by (auto simp add: post_redeem_root_def db_run_def Let_def filter_empty_conv)

lemma redeem_root_table:
  "table (handle Root e (Redeem b) t) =
     (if truthy (b ''ticket_id'') \<and> \<not> db_error e
      then map (\<lambda>r. if id_is (sql_param (b ''ticket_id'')) r \<and> status r = Valido
                    then r\<lparr>status := Canjeado\<rparr> else r) t
      else t)"
  by (simp add: post_redeem_root_def db_run_def Let_def)

lemma redeem_server_code:
  "code (response (handle Server e (Redeem b) t)) =
     (if \<not> truthy (b ''ticket_id'') then 400
      else if db_error e then 500
      else if \<exists>r\<in>set t. id_is (sql_param (b ''ticket_id'')) r then 200
      else 404)"
  by (auto simp add: post_redeem_server_def db_run_def Let_def filter_empty_conv)

lemma redeem_server_table:
  "table (handle Server e (Redeem b) t) =
     (if truthy (b ''ticket_id'') \<and> \<not> db_error e
      then map (\<lambda>r. if id_is (sql_param (b ''ticket_id'')) r
                    then r\<lparr>status := Canjeado\<rparr> else r) t
      else t)"
  by (simp add: post_redeem_server_def db_run_def Let_def)

lemma redeem_root_never_twice:
  assumes "code (response (handle Root e (Redeem b) t)) = 200"
  shows "code (response (handle Root e' (Redeem b) (table (handle Root e (Redeem b) t)))) \<noteq> 200"
proof -
  let ?p = "sql_param (b ''ticket_id'')"
  let ?t' = "map (\<lambda>r. if id_is ?p r \<and> status r = Valido then r\<lparr>status := Canjeado\<rparr> else r) t"
  from assms have ok: "truthy (b ''ticket_id'')" "\<not> db_error e"
    unfolding redeem_root_code by (simp_all split: if_splits)
  then have t': "table (handle Root e (Redeem b) t) = ?t'"
    unfolding redeem_root_table by simp
  have none: "\<not> (\<exists>r\<in>set ?t'. id_is ?p r \<and> status r = Valido)"
    by (auto simp add: id_is_def)
  show ?thesis
    unfolding t' redeem_root_code using none by (simp only: if_False if_True split: if_splits) simp
qed

lemma redeem_root_outcome:
  assumes "\<not> db_error e" and "b ''ticket_id'' = Some (Text i)" and "i \<noteq> []"
  shows "handle Root e (Redeem b) t =
      \<lparr>response =
         (if \<exists>r\<in>set t. row_id r = i \<and> status r = Valido
          then Response 200 (JObj [(''message'', JStr ''Ticket canjeado exitosamente'')])
          else Response 400 (error_json ''Ticket no encontrado o ya fue canjeado'')),
       table = map (\<lambda>r. if row_id r = i \<and> status r = Valido
                         then r\<lparr>status := Canjeado\<rparr> else r) t,
       calls = [Db_run (Update_valid_to_redeemed (Some i))]\<rparr>"
proof -
  have q: "sql_param (b ''ticket_id'') = Some i" "truthy (b ''ticket_id'')"
    using assms by simp_all
  have n: "(length (filter (\<lambda>r. row_id r = i \<and> status r = Valido) t) = 0)
             = (\<not> (\<exists>r\<in>set t. row_id r = i \<and> status r = Valido))"
    by (simp add: filter_empty_conv)
  show ?thesis
    using q assms(1) by (simp add: post_redeem_root_def db_run_def n del: length_0_conv)
qed

lemma redeem_root_conditional:
  assumes "\<not> db_error e" and "b ''ticket_id'' = Some (Text i)" and "i \<noteq> []"
    and "\<not> (\<exists>r\<in>set t. row_id r = i \<and> status r = Valido)"
  shows "handle Root e (Redeem b) t =
      \<lparr>response = Response 400 (error_json ''Ticket no encontrado o ya fue canjeado''),
       table = t, calls = [Db_run (Update_valid_to_redeemed (Some i))]\<rparr>"
proof -
  have "map (\<lambda>r. if row_id r = i \<and> status r = Valido then r\<lparr>status := Canjeado\<rparr> else r) t = t"
    using assms(4) by (intro map_idI) auto
  then show ?thesis
    by (subst redeem_root_outcome [where i = i]) (use assms in simp_all)
qed


subsection \<open>The row of one ticket through a run\<close>

lemma create_success:
  assumes "code (response (handle p e (Create b) t)) = 200"
  shows "\<exists>r. table (handle p e (Create b) t) = t @ [r] \<and> row_id r = uuidv4 e
            \<and> status r = Valido \<and> created_at r = current_timestamp e
            \<and> uuidv4 e \<notin> row_id ` set t"
proof (cases p)
  case Root
  with assms show ?thesis
    by (auto simp add: post_tickets_root_def db_run_def Let_def
          split: if_splits option.splits prod.splits)
next
  case Server
  with assms show ?thesis
    by (auto simp add: post_tickets_server_def db_run_def Let_def
          split: if_splits option.splits prod.splits)
qed

lemma filter_id_map:
  assumes "\<And>x. row_id (f x) = row_id x"
  shows "filter (\<lambda>x. row_id x = i) (map f t) = map f (filter (\<lambda>x. row_id x = i) t)"
  by (induction t) (simp_all add: assms)

lemma filter_id_map_other:
  assumes "\<And>x. row_id x = i \<Longrightarrow> f x = x" and "\<And>x. row_id (f x) = row_id x"
  shows "filter (\<lambda>x. row_id x = i) (map f t) = filter (\<lambda>x. row_id x = i) t"
  by (induction t) (simp_all add: assms)

lemma rows_with_id_untouched:
  assumes one: "filter (\<lambda>x. row_id x = i) t = [r]" and nt: "\<not> touches i rq"
  shows "filter (\<lambda>x. row_id x = i) (table (handle p e rq t)) = [r]"
proof (cases rq)
  case (Create b)
  from one have "r \<in> set (filter (\<lambda>x. row_id x = i) t)" by simp
  then have "i \<in> row_id ` set t" by auto
  with table_create [of p e b t] one show ?thesis
    unfolding Create by auto
next
  case (Redeem b)
  with nt have other: "sql_param (b ''ticket_id'') \<noteq> Some i" by simp
  show ?thesis
  proof (cases p)
    case Root
    from table_redeem_root [of e b t] other one show ?thesis
      unfolding Root Redeem by (auto simp add: filter_id_map_other)
  next
    case Server
    from table_redeem_server [of e b t] other one show ?thesis
      unfolding Server Redeem by (auto simp add: filter_id_map_other)
  qed
next
  case (Delete j)
  with nt have "j \<noteq> i" by simp
  then have "filter (\<lambda>x. row_id x = i) (filter (\<lambda>r. row_id r \<noteq> j) t) = filter (\<lambda>x. row_id x = i) t"
    by (induction t) auto
  with table_delete [of p e j t] one show ?thesis
    unfolding Delete by auto
qed (use one in simp_all)

lemma rows_with_id_redeemed:
  assumes one: "filter (\<lambda>x. row_id x = i) t = [r]" and st: "status r = Canjeado"
    and nd: "rq \<noteq> Delete i"
  shows "filter (\<lambda>x. row_id x = i) (table (handle p e rq t)) = [r]"
proof (cases "touches i rq")
  case False
  with one show ?thesis by (rule rows_with_id_untouched)
next
  case True
  with nd obtain b where rq: "rq = Redeem b" and b: "sql_param (b ''ticket_id'') = Some i"
    by (cases rq) auto
  have r: "r\<lparr>status := Canjeado\<rparr> = r" using st by simp
  show ?thesis
  proof (cases p)
    case Root
    show ?thesis
      unfolding Root rq redeem_root_table using one st b
      by (simp add: filter_id_map)
  next
    case Server
    show ?thesis
      unfolding Server rq redeem_server_table using one r b
      by (simp add: filter_id_map)
  qed
qed

lemma redeem_success:
  assumes one: "filter (\<lambda>x. row_id x = i) t = [r]"
    and b: "sql_param (b ''ticket_id'') = Some i"
    and ok: "code (response (handle p e (Redeem b) t)) = 200"
  shows "filter (\<lambda>x. row_id x = i) (table (handle p e (Redeem b) t)) = [r\<lparr>status := Canjeado\<rparr>]"
proof -
  from one have "r \<in> set (filter (\<lambda>x. row_id x = i) t)" by simp
  then have rid: "row_id r = i" by simp
  show ?thesis
  proof (cases p)
    case Root
    from ok have c: "truthy (b ''ticket_id'')" "\<not> db_error e"
        "\<exists>x\<in>set t. id_is (sql_param (b ''ticket_id'')) x \<and> status x = Valido"
      unfolding Root redeem_root_code by (simp_all split: if_splits)
    from c(3) b obtain x where "x \<in> set (filter (\<lambda>x. row_id x = i) t)" "status x = Valido"
      by auto
    with one have "status r = Valido" by simp
    with c one b rid show ?thesis
      unfolding Root redeem_root_table by (simp add: filter_id_map)
  next
    case Server
    from ok have c: "truthy (b ''ticket_id'')" "\<not> db_error e"
      unfolding Server redeem_server_code by (simp_all split: if_splits)
    with one b rid show ?thesis
      unfolding Server redeem_server_table by (simp add: filter_id_map)
  qed
qed

lemma run_untouched:
  assumes "filter (\<lambda>x. row_id x = i) t = [r]" and "\<forall>x\<in>set rqs. \<not> touches i (snd x)"
  shows "filter (\<lambda>x. row_id x = i) (run p rqs t) = [r]"
  using assms
proof (induction rqs arbitrary: t)
  case Nil
  then show ?case by simp
next
  case (Cons a rqs)
  obtain e rq where a: "a = (e, rq)" by (cases a)
  from Cons.prems have "filter (\<lambda>x. row_id x = i) (table (handle p e rq t)) = [r]"
    by (intro rows_with_id_untouched) (simp_all add: a)
  with Cons.IH [of "table (handle p e rq t)"] Cons.prems(2) show ?case
    by (simp add: a)
qed

lemma run_redeemed:
  assumes "filter (\<lambda>x. row_id x = i) t = [r]" and "status r = Canjeado"
    and "\<forall>x\<in>set rqs. snd x \<noteq> Delete i"
  shows "filter (\<lambda>x. row_id x = i) (run p rqs t) = [r]"
  using assms
proof (induction rqs arbitrary: t)
  case Nil
  then show ?case by simp
next
  case (Cons a rqs)
  obtain e rq where a: "a = (e, rq)" by (cases a)
  from Cons.prems have "filter (\<lambda>x. row_id x = i) (table (handle p e rq t)) = [r]"
    by (intro rows_with_id_redeemed) (simp_all add: a)
  with Cons.IH [of "table (handle p e rq t)"] Cons.prems(2,3) show ?case
    by (simp add: a)
qed

lemma validate_valid_flag:
  assumes one: "filter (\<lambda>x. row_id x = i) t = [r]"
    and b: "b ''ticket_id'' = Some (Text i)" and i: "i \<noteq> []" and e: "\<not> db_error e"
  shows "property (payload (response (handle p e (Validate b) t))) ''valid''
           = Some (JBool (status r \<noteq> Canjeado))
       \<and> (status r = Canjeado \<longrightarrow>
            property (payload (response (handle p e (Validate b) t))) ''message''
              = Some (JStr ''Ticket ya fue canjeado''))"
proof -
  have q: "sql_param (b ''ticket_id'') = Some i" "truthy (b ''ticket_id'')"
    using b i by simp_all
  have f: "find (\<lambda>x. row_id x = i) t = Some r"
    using one first_of_filter [of "\<lambda>x. row_id x = i" t] by simp
  show ?thesis
    using q e f
    by (cases p; cases "status r = Canjeado") (simp_all add: handler_defs db_get_by_id)
qed

subsection \<open>Reading a created ticket back\<close>

lemma create_response_created_at:
  assumes "code (response (handle p e (Create b) t)) = 200"
  shows "property (payload (response (handle p e (Create b) t))) ''created_at''
     = Some (JStr (moment_format e (case p of Root \<Rightarrow> None | Server \<Rightarrow> Some ''YYYY-MM-DD HH:mm:ss'')))"
proof -
  obtain n where n: "json_of_field (b ''buyer_name'') = n" by simp
  obtain m where m: "json_of_field (b ''buyer_email'') = m" by simp
  obtain v where v: "json_of_field (b ''event_name'') = v" by simp
  show ?thesis
  proof (cases p)
    case Root
    with assms show ?thesis
      unfolding Root handle.simps post_tickets_root_def n m v
      by (cases n; cases m; cases v)
         (simp_all add: Let_def split: if_splits option.splits prod.splits)
  next
    case Server
    with assms show ?thesis
      unfolding Server handle.simps post_tickets_server_def n m v
      by (cases n; cases m; cases v)
         (simp_all add: Let_def split: if_splits option.splits prod.splits)
  qed
qed

lemma get_created_ticket:
  assumes one: "filter (\<lambda>x. row_id x = i) t = [r]" and e: "\<not> db_error e"
  shows "response (handle p e (Get_by_id i) t) = Response 200 (json_of_row r)"
proof -
  have f: "find (\<lambda>x. row_id x = i) t = Some r"
    using one first_of_filter [of "\<lambda>x. row_id x = i" t] by simp
  with e show ?thesis
    by (cases p) (simp_all add: get_ticket_root_def get_ticket_server_def db_get_by_id)
qed

lemma list_payload:
  "\<not> db_error e \<Longrightarrow>
     payload (response (handle p e List_all t)) = JArr (map json_of_row (order_by_created_at_desc t))"
  by (cases p) (simp_all add: get_tickets_root_def get_tickets_server_def db_all_def)

lemma set_order_by_created_at_desc: "set (order_by_created_at_desc t) = set t"
  by (simp add: order_by_created_at_desc_def)

subsection \<open>Where the two programs agree\<close>






section \<open>Create: incomplete input\<close>

text \<open>
  Claim C4. A Create request whose \<^verbatim>\<open>buyer_name\<close> or \<^verbatim>\<open>event_name\<close> is falsy
  (missing, \<^verbatim>\<open>null\<close> or the empty string) is answered with status 400 and the
  validation message, in both programs; the table is left as it was and neither
  the QR encoder nor the store has been called.
\<close>

theorem create_rejects_incomplete_input:
  "\<not> truthy (b ''buyer_name'') \<or> \<not> truthy (b ''event_name'') \<Longrightarrow>
     handle p e (Create b) t =
       \<lparr>response = Response 400 (error_json
          (case p of Root \<Rightarrow> ''Nombre del comprador y evento son requeridos''
                   | Server \<Rightarrow> ''Nombre del comprador y nombre del evento son requeridos'')),
        table = t, calls = []\<rparr>"
  by (cases p) (auto simp add: handler_defs)

theorem create_rejects_incomplete_input_witness:
  "handle Root sample_env (Create [''buyer_name'' \<mapsto> Text [], ''event_name'' \<mapsto> Text ''Concert''])
       [sample_ticket ''t0'' ''2024-01-14 09:00:00'' Valido] =
     \<lparr>response = Response 400 (error_json ''Nombre del comprador y evento son requeridos''),
      table = [sample_ticket ''t0'' ''2024-01-14 09:00:00'' Valido], calls = []\<rparr>
   \<and> handle Server sample_env (Create [''buyer_name'' \<mapsto> Text ''Ana'']) [] =
     \<lparr>response = Response 400
        (error_json ''Nombre del comprador y nombre del evento son requeridos''),
      table = [], calls = []\<rparr>"
  using create_rejects_incomplete_input
          [of "[''buyer_name'' \<mapsto> Text [], ''event_name'' \<mapsto> Text ''Concert'']" Root sample_env
              "[sample_ticket ''t0'' ''2024-01-14 09:00:00'' Valido]"]
        create_rejects_incomplete_input [of "[''buyer_name'' \<mapsto> Text ''Ana'']" Server sample_env "[]"]
  by simp

section \<open>List\<close>

text \<open>
  Claim C6. When the store answers the query, List responds 200 with every row
  of the table, each exactly once, ordered by \<^verbatim>\<open>created_at\<close> descending; on the
  empty table the response is 200 with the empty array. The table is not
  changed. (A failing store is the separate 500 case of the handler.)
\<close>

theorem list_all_sorted_desc:
  "\<not> db_error e \<Longrightarrow>
     handle p e List_all t =
       \<lparr>response = Response 200 (JArr (map json_of_row (order_by_created_at_desc t))),
        table = t, calls = [Db_all Select_all]\<rparr>
   \<and> mset (order_by_created_at_desc t) = mset t
   \<and> sorted_wrt (\<lambda>a b. created_at b \<le> created_at a) (order_by_created_at_desc t)
   \<and> (t = [] \<longrightarrow> response (handle p e List_all t) = Response 200 (JArr []))"
  by (cases p)
     (simp_all add: handler_defs db_all_def order_by_created_at_desc_mset
        order_by_created_at_desc_sorted, simp_all add: order_by_created_at_desc_def)

theorem list_all_sorted_desc_witness:
  "\<not> db_error sample_env
   \<and> response (handle Root sample_env List_all
        [sample_ticket ''a'' ''2024-01-15 13:30:00'' Valido,
         sample_ticket ''b'' ''2024-01-16 08:00:00'' Canjeado]) =
       Response 200 (JArr
        [json_of_row (sample_ticket ''b'' ''2024-01-16 08:00:00'' Canjeado),
         json_of_row (sample_ticket ''a'' ''2024-01-15 13:30:00'' Valido)])
   \<and> response (handle Server sample_env List_all []) = Response 200 (JArr [])"
  using list_all_sorted_desc [of sample_env Root
          "[sample_ticket ''a'' ''2024-01-15 13:30:00'' Valido,
            sample_ticket ''b'' ''2024-01-16 08:00:00'' Canjeado]"]
        list_all_sorted_desc [of sample_env Server "[]"]
  by (simp add: sample_env_def sample_ticket_def order_by_created_at_desc_def)

section \<open>Delete\<close>

text \<open>
  Claim C8. Delete removes the rows whose id is the given one and no other row:
  the table afterwards is the old table without them, in the same order. When
  no row has that id the response is 404 and the table is unchanged; otherwise
  the response is 200. When the store fails the response is 500 and the table is
  unchanged. In every case the rows with another id are the same before and
  after.
\<close>

theorem delete_removes_only_that_row:
  "(db_error e \<longrightarrow>
      code (response (handle p e (Delete i) t)) = 500 \<and> table (handle p e (Delete i) t) = t)
   \<and> (\<not> db_error e \<longrightarrow>
      code (response (handle p e (Delete i) t)) = (if i \<in> row_id ` set t then 200 else 404)
      \<and> table (handle p e (Delete i) t) = filter (\<lambda>r. row_id r \<noteq> i) t)
   \<and> (i \<notin> row_id ` set t \<longrightarrow> table (handle p e (Delete i) t) = t)
   \<and> filter (\<lambda>r. row_id r \<noteq> i) (table (handle p e (Delete i) t)) = filter (\<lambda>r. row_id r \<noteq> i) t"
  by (cases p) (auto simp add: handler_defs db_run_def no_row_with_id filter_id_conv)

theorem delete_removes_only_that_row_witness:
  "\<not> db_error sample_env
   \<and> code (response (handle Root sample_env (Delete ''t1'')
        [sample_ticket ''t1'' ''2024-01-15 13:30:00'' Canjeado,
         sample_ticket ''t2'' ''2024-01-16 08:00:00'' Valido])) = 200
   \<and> table (handle Root sample_env (Delete ''t1'')
        [sample_ticket ''t1'' ''2024-01-15 13:30:00'' Canjeado,
         sample_ticket ''t2'' ''2024-01-16 08:00:00'' Valido]) =
       [sample_ticket ''t2'' ''2024-01-16 08:00:00'' Valido]
   \<and> ''t3'' \<notin> row_id ` set [sample_ticket ''t2'' ''2024-01-16 08:00:00'' Valido]
   \<and> code (response (handle Server sample_env (Delete ''t3'')
        [sample_ticket ''t2'' ''2024-01-16 08:00:00'' Valido])) = 404
   \<and> table (handle Server sample_env (Delete ''t3'')
        [sample_ticket ''t2'' ''2024-01-16 08:00:00'' Valido]) =
       [sample_ticket ''t2'' ''2024-01-16 08:00:00'' Valido]"
  using delete_removes_only_that_row [of sample_env Root "''t1''"
          "[sample_ticket ''t1'' ''2024-01-15 13:30:00'' Canjeado,
            sample_ticket ''t2'' ''2024-01-16 08:00:00'' Valido]"]
        delete_removes_only_that_row [of sample_env Server "''t3''"
          "[sample_ticket ''t2'' ''2024-01-16 08:00:00'' Valido]"]
  by (simp add: sample_env_def sample_ticket_def)

section \<open>Validate and Redeem: the empty ticket id\<close>

text \<open>
  Claim C10. A Validate or Redeem request whose \<^verbatim>\<open>ticket_id\<close> is the empty
  string is answered with the 400 missing-id error, exactly as a request without
  the field is, and the store is not called.
\<close>

theorem empty_ticket_id_reported_missing:
  "b ''ticket_id'' = Some (Text []) \<Longrightarrow>
     handle p e (Validate b) t =
       \<lparr>response = Response 400 (error_json ''ID del ticket es requerido''), table = t, calls = []\<rparr>
   \<and> handle p e (Redeem b) t =
       \<lparr>response = Response 400 (error_json ''ID del ticket es requerido''), table = t, calls = []\<rparr>
   \<and> handle p e (Validate b) t = handle p e (Validate (b(''ticket_id'' := None))) t
   \<and> handle p e (Redeem b) t = handle p e (Redeem (b(''ticket_id'' := None))) t"
  by (cases p) (simp_all add: handler_defs)

theorem empty_ticket_id_reported_missing_witness:
  "handle Server sample_env (Validate [''ticket_id'' \<mapsto> Text []]) [] =
       \<lparr>response = Response 400 (error_json ''ID del ticket es requerido''), table = [], calls = []\<rparr>
   \<and> handle Root sample_env (Redeem [''ticket_id'' \<mapsto> Text []]) [] =
       \<lparr>response = Response 400 (error_json ''ID del ticket es requerido''), table = [], calls = []\<rparr>"
  using empty_ticket_id_reported_missing [of "[''ticket_id'' \<mapsto> Text []]" Server sample_env "[]"]
        empty_ticket_id_reported_missing [of "[''ticket_id'' \<mapsto> Text []]" Root sample_env "[]"]
  by simp

section \<open>Redeem of a redeemed ticket\<close>

text \<open>
  Claim C1. Redeem must change a row only when its status is the Valid text and
  must fail, changing nothing, for an absent or already redeemed ticket. The
  root program does so (lemmas \<open>redeem_root_conditional\<close> and
  \<open>redeem_root_never_twice\<close> above). The server program's UPDATE has no
  condition on the status: on a table whose only ticket \<^verbatim>\<open>t1\<close> is already
  redeemed, Redeem of \<^verbatim>\<open>t1\<close> answers 200 with the success message.
\<close>

theorem server_redeems_redeemed_ticket_again:
  "handle Server sample_env (Redeem sample_id_body)
       [sample_ticket ''t1'' ''2024-01-15 13:30:00'' Canjeado] =
     \<lparr>response = Response 200 (JObj [(''success'', JBool True),
        (''message'', JStr (party_popper @ '' '' @ inverted_exclamation
           @ ''Ticket canjeado exitosamente! '' @ inverted_exclamation
           @ ''Que disfrute el evento!''))]),
      table = [sample_ticket ''t1'' ''2024-01-15 13:30:00'' Canjeado],
      calls = [Db_run (Update_status Canjeado (Some ''t1''))]\<rparr>"
  by (simp add: handler_defs db_run_def sample_env_def sample_ticket_def sample_id_body_def)

section \<open>The status of a ticket\<close>

text \<open>
  Claim C3. In a table either program can reach, every status is the Valid or
  the Redeemed text, and one request changes a row that stays in the table in at
  most one way: its status goes from Valid to Redeemed, and the request is a
  Redeem of that row's id. In particular no request takes a status from
  Redeemed to anything else. (\<open>r'\<close> is the row that has the id of \<open>r\<close> after
  the request, if there is one.) Over several requests: a row with the Redeemed
  status is still in the table, unchanged and the only row of its id, after any
  requests that do not delete it.
\<close>

theorem status_moves_only_valid_to_redeemed:
  assumes "reachable p t" and "r \<in> set t"
    and "r' \<in> set (table (handle p e rq t))" and "row_id r' = row_id r"
  shows "(status r = Valido \<or> status r = Canjeado)
    \<and> (r' = r
       \<or> (status r = Valido \<and> r' = r\<lparr>status := Canjeado\<rparr>
          \<and> (\<exists>b. rq = Redeem b \<and> sql_param (b ''ticket_id'') = Some (row_id r))))
    \<and> (status r = Canjeado \<longrightarrow>
         (\<forall>rqs. (\<forall>x\<in>set rqs. snd x \<noteq> Delete (row_id r)) \<longrightarrow>
            filter (\<lambda>x. row_id x = row_id r) (run p rqs t) = [r]))"
proof -
  have wf: "well_formed t" using assms(1) by (rule reachable_well_formed)
  have st: "status r = Valido \<or> status r = Canjeado"
    using wf assms(2) by (simp add: well_formed_def)
  have same: "x = r" if "x \<in> set t" "row_id x = row_id r" for x
    using wf assms(2) that by (rule same_id_same_row)
  have "r' = r
       \<or> (status r = Valido \<and> r' = r\<lparr>status := Canjeado\<rparr>
          \<and> (\<exists>b. rq = Redeem b \<and> sql_param (b ''ticket_id'') = Some (row_id r)))"
  proof (cases rq)
    case (Create b)
    with table_create [of p e b t] assms(2,3,4) same show ?thesis by auto
  next
    case (Redeem b)
    have step: ?thesis
      if tab: "table (handle p e rq t) = map f t"
        and f: "\<And>x. f x = x \<or> (f x = x\<lparr>status := Canjeado\<rparr> \<and> row_id x = i)"
        and i: "sql_param (b ''ticket_id'') = Some i" for f i
    proof -
      from assms(3) tab obtain x where x: "x \<in> set t" "r' = f x" by auto
      from f [of x] have "row_id (f x) = row_id x" by auto
      with x assms(4) have "x = r" by (simp add: same)
      with x have r': "r' = f r" by simp
      from f [of r] show ?thesis
      proof
        assume "f r = r"
        with r' show ?thesis by simp
      next
        assume a: "f r = r\<lparr>status := Canjeado\<rparr> \<and> row_id r = i"
        from st show ?thesis
        proof
          assume "status r = Valido"
          with a r' i Redeem show ?thesis by simp
        next
          assume "status r = Canjeado"
          then have "r\<lparr>status := Canjeado\<rparr> = r" by simp
          with a r' show ?thesis by simp
        qed
      qed
    qed
    show ?thesis
    proof (cases p)
      case Root
      from table_redeem_root [of e b t] show ?thesis
      proof (elim disjE exE conjE)
        assume "table (handle Root e (Redeem b) t) = t"
        with Root Redeem assms(3,4) same show ?thesis by auto
      next
        fix i
        assume "sql_param (b ''ticket_id'') = Some i"
          and "table (handle Root e (Redeem b) t) =
            map (\<lambda>r. if row_id r = i \<and> status r = Valido then r\<lparr>status := Canjeado\<rparr> else r) t"
        with Root Redeem show ?thesis
          by (intro step [where i = i and f = "\<lambda>r. if row_id r = i \<and> status r = Valido
                 then r\<lparr>status := Canjeado\<rparr> else r"]) auto
      qed
    next
      case Server
      from table_redeem_server [of e b t] show ?thesis
      proof (elim disjE exE conjE)
        assume "table (handle Server e (Redeem b) t) = t"
        with Server Redeem assms(3,4) same show ?thesis by auto
      next
        fix i
        assume "sql_param (b ''ticket_id'') = Some i"
          and "table (handle Server e (Redeem b) t) =
            map (\<lambda>r. if row_id r = i then r\<lparr>status := Canjeado\<rparr> else r) t"
        with Server Redeem show ?thesis
          by (intro step [where i = i and f = "\<lambda>r. if row_id r = i
                 then r\<lparr>status := Canjeado\<rparr> else r"]) auto
      qed
    qed
  next
    case (Delete i)
    with table_delete [of p e i t] assms(3,4) same show ?thesis by auto
  qed (use assms(3,4) same in auto)
  moreover have "status r = Canjeado \<longrightarrow>
         (\<forall>rqs. (\<forall>x\<in>set rqs. snd x \<noteq> Delete (row_id r)) \<longrightarrow>
            filter (\<lambda>x. row_id x = row_id r) (run p rqs t) = [r])"
  proof (intro impI allI)
    fix rqs :: "(env \<times> request) list"
    assume "status r = Canjeado" and "\<forall>x\<in>set rqs. snd x \<noteq> Delete (row_id r)"
    with only_row_with_id [OF wf assms(2)]
    show "filter (\<lambda>x. row_id x = row_id r) (run p rqs t) = [r]"
      by (rule run_redeemed)
  qed
  ultimately show ?thesis using st by blast
qed



theorem status_moves_only_valid_to_redeemed_witness:
  "reachable Root [sample_ticket ''t1'' ''2024-01-15 13:30:00'' Valido]
   \<and> sample_ticket ''t1'' ''2024-01-15 13:30:00'' Valido
        \<in> set [sample_ticket ''t1'' ''2024-01-15 13:30:00'' Valido]
   \<and> sample_ticket ''t1'' ''2024-01-15 13:30:00'' Canjeado
        \<in> set (table (handle Root sample_env (Redeem sample_id_body)
                  [sample_ticket ''t1'' ''2024-01-15 13:30:00'' Valido]))
   \<and> row_id (sample_ticket ''t1'' ''2024-01-15 13:30:00'' Canjeado)
        = row_id (sample_ticket ''t1'' ''2024-01-15 13:30:00'' Valido)
   \<and> sample_ticket ''t1'' ''2024-01-15 13:30:00'' Canjeado
        \<noteq> sample_ticket ''t1'' ''2024-01-15 13:30:00'' Valido
   \<and> status (sample_ticket ''t1'' ''2024-01-15 13:30:00'' Valido) = Valido
   \<and> sample_ticket ''t1'' ''2024-01-15 13:30:00'' Canjeado
        = (sample_ticket ''t1'' ''2024-01-15 13:30:00'' Valido)\<lparr>status := Canjeado\<rparr>
   \<and> sql_param (sample_id_body ''ticket_id'')
        = Some (row_id (sample_ticket ''t1'' ''2024-01-15 13:30:00'' Valido))
   \<and> reachable Root [sample_ticket ''t1'' ''2024-01-15 13:30:00'' Canjeado]
   \<and> status (sample_ticket ''t1'' ''2024-01-15 13:30:00'' Canjeado) = Canjeado
   \<and> Redeem sample_id_body
        \<noteq> Delete (row_id (sample_ticket ''t1'' ''2024-01-15 13:30:00'' Canjeado))
   \<and> filter (\<lambda>x. row_id x = row_id (sample_ticket ''t1'' ''2024-01-15 13:30:00'' Canjeado))
        (run Root [(sample_env, Redeem sample_id_body)]
           [sample_ticket ''t1'' ''2024-01-15 13:30:00'' Canjeado])
       = [sample_ticket ''t1'' ''2024-01-15 13:30:00'' Canjeado]"
proof -
  let ?r = "sample_ticket ''t1'' ''2024-01-15 13:30:00'' Valido"
  let ?r' = "sample_ticket ''t1'' ''2024-01-15 13:30:00'' Canjeado"
  have "reachable Root (table (handle Root sample_env (Create sample_create_body) []))"
    by (rule reachable.request) (rule reachable.empty)
  then have reach: "reachable Root [?r]"
    by (simp add: post_tickets_root_def db_run_def sample_env_def sample_create_body_def
          sample_ticket_def)
  have mem: "?r \<in> set [?r]" by simp
  have tab: "table (handle Root sample_env (Redeem sample_id_body) [?r]) = [?r']"
    by (simp add: post_redeem_root_def db_run_def sample_env_def sample_id_body_def
          sample_ticket_def)
  then have mem': "?r' \<in> set (table (handle Root sample_env (Redeem sample_id_body) [?r]))"
    by simp
  have ids: "row_id ?r' = row_id ?r" by (simp add: sample_ticket_def)
  have neq: "?r' \<noteq> ?r" by (simp add: sample_ticket_def)
  have first: "status ?r = Valido \<and> ?r' = ?r\<lparr>status := Canjeado\<rparr>
      \<and> sql_param (sample_id_body ''ticket_id'') = Some (row_id ?r)"
    using status_moves_only_valid_to_redeemed [OF reach mem mem' ids] neq
    by (simp add: sample_ticket_def sample_id_body_def)
  have "reachable Root (table (handle Root sample_env (Redeem sample_id_body) [?r]))"
    using reach by (rule reachable.request)
  then have reach': "reachable Root [?r']"
    by (simp only: tab)
  have st': "status ?r' = Canjeado" by (simp add: sample_ticket_def)
  have nd: "\<forall>x\<in>set [(sample_env, Redeem sample_id_body)]. snd x \<noteq> Delete (row_id ?r')"
    by simp
  have memr: "?r' \<in> set [?r']" by simp
  have memr': "?r' \<in> set (table (handle Root sample_env List_all [?r']))"
    by (simp del: handle.simps)
  from status_moves_only_valid_to_redeemed [OF reach' memr memr' refl] st' nd
  have second: "filter (\<lambda>x. row_id x = row_id ?r')
      (run Root [(sample_env, Redeem sample_id_body)] [?r']) = [?r']"
    by blast
  from reach mem mem' ids neq first reach' st' second show ?thesis
    by simp
qed

section \<open>Validate\<close>

text \<open>
  What Validate answers, case by case, for a non-empty ticket id and a store that
  answers: always 200 and no change of the table. Without a row of that id both
  programs send \<^verbatim>\<open>valid: false\<close> with the not-found message and no ticket. For
  a row of a status other than the Redeemed text (the Valid text is one) both
  send \<^verbatim>\<open>valid: true\<close> with the ticket attached. For a row with the Redeemed
  status the root program sends \<^verbatim>\<open>valid: false\<close>, the already-redeemed message
  and the ticket; the server program sends \<^verbatim>\<open>valid: false\<close>,
  \<^verbatim>\<open>already_redeemed: true\<close> and the message.
\<close>

lemma validate_outcomes:
  assumes "\<not> db_error e" and "b ''ticket_id'' = Some (Text i)" and "i \<noteq> []"
  shows "table (handle p e (Validate b) t) = t
    \<and> code (response (handle p e (Validate b) t)) = 200
    \<and> (find (\<lambda>r. row_id r = i) t = None \<longrightarrow>
         payload (response (handle p e (Validate b) t)) =
           JObj [(''valid'', JBool False), (''message'', JStr ''Ticket no encontrado'')])
    \<and> (\<forall>r. find (\<lambda>r. row_id r = i) t = Some r \<and> status r = Canjeado \<longrightarrow>
         payload (response (handle p e (Validate b) t)) =
           (case p of
              Root \<Rightarrow> JObj [(''valid'', JBool False), (''message'', JStr ''Ticket ya fue canjeado''),
                            (''ticket'', json_of_row r)]
            | Server \<Rightarrow> JObj [(''valid'', JBool False), (''already_redeemed'', JBool True),
                              (''message'', JStr ''Ticket ya fue canjeado'')]))
    \<and> (\<forall>r. find (\<lambda>r. row_id r = i) t = Some r \<and> status r \<noteq> Canjeado \<longrightarrow>
         payload (response (handle p e (Validate b) t)) =
           (case p of
              Root \<Rightarrow> JObj [(''valid'', JBool True),
                            (''message'', JStr (''Ticket v'' @ a_acute @ ''lido'')),
                            (''ticket'', json_of_row r)]
            | Server \<Rightarrow> JObj [(''valid'', JBool True), (''ticket'', json_of_row r),
                              (''message'', JStr (''Ticket v'' @ a_acute @ ''lido''))]))"
proof -
  have q: "sql_param (b ''ticket_id'') = Some i" "truthy (b ''ticket_id'')"
    using assms by simp_all
  show ?thesis
  proof (cases "find (\<lambda>r. row_id r = i) t")
    case None
    with q assms(1) show ?thesis
      by (cases p) (simp_all add: handler_defs db_get_by_id)
  next
    case (Some r)
    with q assms(1) show ?thesis
      by (cases p; cases "status r = Canjeado") (simp_all add: handler_defs db_get_by_id)
  qed
qed


lemma validate_outcomes_example:
  "\<not> db_error sample_env
   \<and> sample_id_body ''ticket_id'' = Some (Text ''t1'') \<and> ''t1'' \<noteq> []
   \<and> find (\<lambda>r. row_id r = ''t1'') [sample_ticket ''t1'' ''2024-01-15 13:30:00'' Canjeado]
        = Some (sample_ticket ''t1'' ''2024-01-15 13:30:00'' Canjeado)
   \<and> status (sample_ticket ''t1'' ''2024-01-15 13:30:00'' Canjeado) = Canjeado
   \<and> payload (response (handle Root sample_env (Validate sample_id_body)
        [sample_ticket ''t1'' ''2024-01-15 13:30:00'' Canjeado])) =
       JObj [(''valid'', JBool False), (''message'', JStr ''Ticket ya fue canjeado''),
             (''ticket'', json_of_row (sample_ticket ''t1'' ''2024-01-15 13:30:00'' Canjeado))]
   \<and> find (\<lambda>r. row_id r = ''t1'') [] = None
   \<and> payload (response (handle Server sample_env (Validate sample_id_body) [])) =
       JObj [(''valid'', JBool False), (''message'', JStr ''Ticket no encontrado'')]"
proof -
  have e: "\<not> db_error sample_env" by (simp add: sample_env_def)
  have b: "sample_id_body ''ticket_id'' = Some (Text ''t1'')" by (simp add: sample_id_body_def)
  have i: "''t1'' \<noteq> []" by simp
  from validate_outcomes [where e = sample_env and b = sample_id_body and i = "''t1''"
         and p = Root and t = "[sample_ticket ''t1'' ''2024-01-15 13:30:00'' Canjeado]"]
       validate_outcomes [where e = sample_env and b = sample_id_body and i = "''t1''"
         and p = Server and t = "[]"] e b i
  show ?thesis by (simp add: sample_ticket_def)
qed

text \<open>
  Claim C5. Validate must answer every one of the three cases with a structured
  result, and for a ticket whose status is the Redeemed text that result must be
  \<^verbatim>\<open>valid: false\<close> with the already-redeemed message and the ticket attached.
  The root program does so in all three cases (lemma \<open>validate_outcomes\<close>
  above), and the server program attaches the ticket in its own valid branch.
  Its branch for a redeemed ticket leaves the ticket out: on a table whose only
  ticket \<^verbatim>\<open>t1\<close> is redeemed, Validate of \<^verbatim>\<open>t1\<close> in the server program
  answers 200 with a body that has no \<^verbatim>\<open>ticket\<close> property.
\<close>

theorem validate_server_redeemed_no_ticket:
  "status (sample_ticket ''t1'' ''2024-01-15 13:30:00'' Canjeado) = Canjeado
   \<and> \<not> db_error sample_env
   \<and> handle Server sample_env (Validate sample_id_body)
        [sample_ticket ''t1'' ''2024-01-15 13:30:00'' Canjeado] =
       \<lparr>response = Response 200 (JObj [(''valid'', JBool False),
          (''already_redeemed'', JBool True), (''message'', JStr ''Ticket ya fue canjeado'')]),
        table = [sample_ticket ''t1'' ''2024-01-15 13:30:00'' Canjeado],
        calls = [Db_get (Select_by_id (Some ''t1''))]\<rparr>
   \<and> property (payload (response (handle Server sample_env (Validate sample_id_body)
        [sample_ticket ''t1'' ''2024-01-15 13:30:00'' Canjeado]))) ''ticket'' = None"
  by (simp add: handler_defs db_get_def sample_env_def sample_ticket_def sample_id_body_def)

section \<open>Validate, Redeem, Validate\<close>

text \<open>
  Claim C7. Let Create succeed with the (non-empty) id \<open>uuidv4 e\<close>. After any
  requests that are neither a Redeem nor a Delete of that id, Validate of the id
  answers \<^verbatim>\<open>valid: true\<close>. If a Redeem of the id then succeeds, then after any
  further requests other than a Delete of the id, Validate of the id answers
  \<^verbatim>\<open>valid: false\<close> with the already-redeemed message. This holds in both
  programs, for a store that answers the two Validate queries.
\<close>

theorem validate_round_trip:
  assumes created: "code (response (handle p e (Create b) t)) = 200"
    and nonempty: "uuidv4 e \<noteq> []"
    and vb: "vb ''ticket_id'' = Some (Text (uuidv4 e))"
    and before: "\<forall>x\<in>set before. \<not> touches (uuidv4 e) (snd x)"
    and t1: "t1 = run p before (table (handle p e (Create b) t))"
    and after: "\<forall>x\<in>set after. snd x \<noteq> Delete (uuidv4 e)"
    and t2: "t2 = run p after (table (handle p er (Redeem vb) t1))"
    and ev: "\<not> db_error ev"
  shows "property (payload (response (handle p ev (Validate vb) t1))) ''valid'' = Some (JBool True)
    \<and> (code (response (handle p er (Redeem vb) t1)) = 200 \<longrightarrow>
         property (payload (response (handle p ev (Validate vb) t2))) ''valid'' = Some (JBool False)
         \<and> property (payload (response (handle p ev (Validate vb) t2))) ''message''
             = Some (JStr ''Ticket ya fue canjeado''))"
proof -
  let ?i = "uuidv4 e"
  from create_success [OF created] obtain r where
    r: "table (handle p e (Create b) t) = t @ [r]" "row_id r = ?i" "status r = Valido"
       "?i \<notin> row_id ` set t"
    by blast
  from r(4) have "filter (\<lambda>x. row_id x = ?i) t = []"
    by (simp add: no_row_with_id)
  with r(1,2) have "filter (\<lambda>x. row_id x = ?i) (table (handle p e (Create b) t)) = [r]"
    by simp
  then have one: "filter (\<lambda>x. row_id x = ?i) t1 = [r]"
    unfolding t1 using before by (rule run_untouched)
  from validate_valid_flag [where i = ?i and t = t1 and r = r and b = vb and e = ev and p = p]
       one vb nonempty ev r(3)
  have first: "property (payload (response (handle p ev (Validate vb) t1))) ''valid''
                 = Some (JBool True)"
    by simp
  have second: "property (payload (response (handle p ev (Validate vb) t2))) ''valid''
                  = Some (JBool False)
      \<and> property (payload (response (handle p ev (Validate vb) t2))) ''message''
          = Some (JStr ''Ticket ya fue canjeado'')"
    if ok: "code (response (handle p er (Redeem vb) t1)) = 200"
  proof -
    have q: "sql_param (vb ''ticket_id'') = Some ?i" using vb by simp
    from redeem_success [where i = ?i and t = t1 and r = r and b = vb and p = p and e = er]
         one q ok
    have "filter (\<lambda>x. row_id x = ?i) (table (handle p er (Redeem vb) t1))
            = [r\<lparr>status := Canjeado\<rparr>]"
      by simp
    then have two: "filter (\<lambda>x. row_id x = ?i) t2 = [r\<lparr>status := Canjeado\<rparr>]"
      unfolding t2 using _ after by (rule run_redeemed) simp
    from validate_valid_flag [where i = ?i and t = t2 and r = "r\<lparr>status := Canjeado\<rparr>"
           and b = vb and e = ev and p = p] two vb nonempty ev
    show ?thesis
      by simp
  qed
  from first second show ?thesis by blast
qed

theorem validate_round_trip_witness:
  "code (response (handle Root sample_env (Create sample_create_body) [])) = 200
   \<and> uuidv4 sample_env \<noteq> []
   \<and> sample_id_body ''ticket_id'' = Some (Text (uuidv4 sample_env))
   \<and> \<not> touches (uuidv4 sample_env) List_all
   \<and> Redeem sample_id_body \<noteq> Delete (uuidv4 sample_env)
   \<and> \<not> db_error sample_env
   \<and> run Root [(sample_env, List_all)]
        (table (handle Root sample_env (Create sample_create_body) []))
       = [sample_ticket ''t1'' ''2024-01-15 13:30:00'' Valido]
   \<and> property (payload (response (handle Root sample_env (Validate sample_id_body)
        [sample_ticket ''t1'' ''2024-01-15 13:30:00'' Valido]))) ''valid'' = Some (JBool True)
   \<and> code (response (handle Root sample_env (Redeem sample_id_body)
        [sample_ticket ''t1'' ''2024-01-15 13:30:00'' Valido])) = 200
   \<and> run Root [(sample_env, Redeem sample_id_body)]
        (table (handle Root sample_env (Redeem sample_id_body)
           [sample_ticket ''t1'' ''2024-01-15 13:30:00'' Valido]))
       = [sample_ticket ''t1'' ''2024-01-15 13:30:00'' Canjeado]
   \<and> property (payload (response (handle Root sample_env (Validate sample_id_body)
        [sample_ticket ''t1'' ''2024-01-15 13:30:00'' Canjeado]))) ''valid'' = Some (JBool False)
   \<and> property (payload (response (handle Root sample_env (Validate sample_id_body)
        [sample_ticket ''t1'' ''2024-01-15 13:30:00'' Canjeado]))) ''message''
       = Some (JStr ''Ticket ya fue canjeado'')"
proof -
  let ?v = "sample_ticket ''t1'' ''2024-01-15 13:30:00'' Valido"
  let ?c = "sample_ticket ''t1'' ''2024-01-15 13:30:00'' Canjeado"
  have created: "code (response (handle Root sample_env (Create sample_create_body) [])) = 200"
    by (simp add: post_tickets_root_def db_run_def sample_env_def sample_create_body_def)
  have nonempty: "uuidv4 sample_env \<noteq> []" by (simp add: sample_env_def)
  have vb: "sample_id_body ''ticket_id'' = Some (Text (uuidv4 sample_env))"
    by (simp add: sample_id_body_def sample_env_def)
  have before: "\<forall>x\<in>set [(sample_env, List_all)]. \<not> touches (uuidv4 sample_env) (snd x)"
    by simp
  have t1: "[?v] = run Root [(sample_env, List_all)]
                   (table (handle Root sample_env (Create sample_create_body) []))"
    by (simp add: post_tickets_root_def get_tickets_root_def db_run_def sample_env_def
          sample_create_body_def sample_ticket_def)
  have after: "\<forall>x\<in>set [(sample_env, Redeem sample_id_body)]. snd x \<noteq> Delete (uuidv4 sample_env)"
    by simp
  have t2: "[?c] = run Root [(sample_env, Redeem sample_id_body)]
                     (table (handle Root sample_env (Redeem sample_id_body) [?v]))"
    by (simp add: post_redeem_root_def db_run_def sample_env_def sample_id_body_def
          sample_ticket_def)
  have ev: "\<not> db_error sample_env" by (simp add: sample_env_def)
  have ok: "code (response (handle Root sample_env (Redeem sample_id_body) [?v])) = 200"
    by (simp add: post_redeem_root_def db_run_def sample_env_def sample_id_body_def
          sample_ticket_def)
  from validate_round_trip [where p = Root and e = sample_env and b = sample_create_body
         and t = "[]" and vb = sample_id_body and before = "[(sample_env, List_all)]"
         and ?t1.0 = "[?v]" and after = "[(sample_env, Redeem sample_id_body)]"
         and ?t2.0 = "[?c]" and er = sample_env and ev = sample_env]
       created nonempty vb before t1 after t2 ev ok
  show ?thesis by simp
qed

section \<open>The creation time in the Create response\<close>

text \<open>
  Claim C9. When Create succeeds, the \<^verbatim>\<open>created_at\<close> of its response is what
  \<^verbatim>\<open>moment().format\<close> gives in the application, while the row it stored, which
  GetByID and List return afterwards, has the \<^verbatim>\<open>CURRENT_TIMESTAMP\<close> of the
  database as its \<^verbatim>\<open>created_at\<close>. There are executions in which the two differ.
\<close>

theorem create_response_timestamp_is_not_the_stored_one:
  "(code (response (handle p e (Create b) t)) = 200 \<longrightarrow>
      property (payload (response (handle p e (Create b) t))) ''created_at''
        = Some (JStr (moment_format e
            (case p of Root \<Rightarrow> None | Server \<Rightarrow> Some ''YYYY-MM-DD HH:mm:ss'')))
      \<and> (\<forall>e'. \<not> db_error e' \<longrightarrow>
            property (payload (response (handle p e' (Get_by_id (uuidv4 e))
                (table (handle p e (Create b) t))))) ''created_at''
              = Some (JStr (current_timestamp e))
            \<and> (\<exists>rows. payload (response (handle p e' List_all
                   (table (handle p e (Create b) t)))) = JArr (map json_of_row rows)
                 \<and> (\<exists>r\<in>set rows. row_id r = uuidv4 e \<and> created_at r = current_timestamp e))))
   \<and> (\<exists>e b t. code (response (handle p e (Create b) t)) = 200 \<and> \<not> db_error e
         \<and> property (payload (response (handle p e (Get_by_id (uuidv4 e))
               (table (handle p e (Create b) t))))) ''created_at''
           \<noteq> property (payload (response (handle p e (Create b) t))) ''created_at'')"
proof (intro conjI impI allI)
  assume ok: "code (response (handle p e (Create b) t)) = 200"
  then show "property (payload (response (handle p e (Create b) t))) ''created_at''
        = Some (JStr (moment_format e
            (case p of Root \<Rightarrow> None | Server \<Rightarrow> Some ''YYYY-MM-DD HH:mm:ss'')))"
    by (rule create_response_created_at)
  from create_success [OF ok] obtain r where
    r: "table (handle p e (Create b) t) = t @ [r]" "row_id r = uuidv4 e"
       "created_at r = current_timestamp e" "uuidv4 e \<notin> row_id ` set t"
    by blast
  from r(4) have "filter (\<lambda>x. row_id x = uuidv4 e) t = []"
    by (simp add: no_row_with_id)
  with r(1,2) have one: "filter (\<lambda>x. row_id x = uuidv4 e) (table (handle p e (Create b) t)) = [r]"
    by simp
  fix e' :: env
  assume e': "\<not> db_error e'"
  from get_created_ticket [where i = "uuidv4 e" and t = "table (handle p e (Create b) t)"
         and r = r and e = e' and p = p] one e' r(3)
  show "property (payload (response (handle p e' (Get_by_id (uuidv4 e))
                (table (handle p e (Create b) t))))) ''created_at''
              = Some (JStr (current_timestamp e))"
    by (simp add: json_of_row_def)
  have "r \<in> set (order_by_created_at_desc (table (handle p e (Create b) t)))"
    by (simp add: set_order_by_created_at_desc r(1))
  with list_payload [where e = e' and p = p and t = "table (handle p e (Create b) t)"] e' r(2,3)
  show "\<exists>rows. payload (response (handle p e' List_all
                   (table (handle p e (Create b) t)))) = JArr (map json_of_row rows)
                 \<and> (\<exists>r\<in>set rows. row_id r = uuidv4 e \<and> created_at r = current_timestamp e)"
    by blast
next
  have "code (response (handle p sample_env (Create sample_create_body) [])) = 200
      \<and> \<not> db_error sample_env
      \<and> property (payload (response (handle p sample_env (Get_by_id (uuidv4 sample_env))
               (table (handle p sample_env (Create sample_create_body) []))))) ''created_at''
           \<noteq> property (payload (response (handle p sample_env (Create sample_create_body) [])))
               ''created_at''"
    by (cases p)
       (simp_all add: post_tickets_root_def post_tickets_server_def get_ticket_root_def
          get_ticket_server_def db_run_def db_get_def sample_env_def sample_create_body_def
          json_of_row_def)
  then show "\<exists>e b t. code (response (handle p e (Create b) t)) = 200 \<and> \<not> db_error e
         \<and> property (payload (response (handle p e (Get_by_id (uuidv4 e))
               (table (handle p e (Create b) t))))) ''created_at''
           \<noteq> property (payload (response (handle p e (Create b) t))) ''created_at''"
    by blast
qed

theorem create_response_timestamp_is_not_the_stored_one_witness:
  "code (response (handle Root sample_env (Create sample_create_body) [])) = 200
   \<and> \<not> db_error sample_env
   \<and> property (payload (response (handle Root sample_env (Create sample_create_body) [])))
        ''created_at'' = Some (JStr ''2024-01-15T10:30:00-03:00'')
   \<and> property (payload (response (handle Root sample_env (Get_by_id (uuidv4 sample_env))
        (table (handle Root sample_env (Create sample_create_body) []))))) ''created_at''
       = Some (JStr ''2024-01-15 13:30:00'')"
proof -
  have ok: "code (response (handle Root sample_env (Create sample_create_body) [])) = 200"
    by (simp add: post_tickets_root_def db_run_def sample_env_def sample_create_body_def)
  have e: "\<not> db_error sample_env" by (simp add: sample_env_def)
  from create_response_timestamp_is_not_the_stored_one
         [of Root sample_env sample_create_body "[]"] ok e
  have "property (payload (response (handle Root sample_env (Create sample_create_body) [])))
          ''created_at'' = Some (JStr (moment_format sample_env None))
      \<and> property (payload (response (handle Root sample_env (Get_by_id (uuidv4 sample_env))
          (table (handle Root sample_env (Create sample_create_body) []))))) ''created_at''
         = Some (JStr (current_timestamp sample_env))"
    by (simp del: handle.simps)
  with ok e show ?thesis by (simp add: sample_env_def del: handle.simps)
qed

section \<open>The two programs compared\<close>




end
